theory Spec2Isabelle
  imports Main
begin

section \<open>Strings and POSIX paths\<close>

text \<open>
  JavaScript strings are modelled as \<open>string\<close>. \<open>startsWith\<close> is
  \<open>String.prototype.startsWith\<close>, \<open>js_join\<close> is \<open>Array.prototype.join\<close> on an
  array of strings.
\<close>

definition startsWith :: "string \<Rightarrow> string \<Rightarrow> bool" where
  "startsWith s p = (take (length p) s = p)"

fun js_join :: "string \<Rightarrow> string list \<Rightarrow> string" where
  "js_join sep [] = []"
| "js_join sep [x] = x"
| "js_join sep (x # y # ys) = x @ sep @ js_join sep (y # ys)"

text \<open>
  The module \<open>path\<close> of the platform (POSIX flavour), as far as
  \<open>resolveImportPath\<close> uses it: \<open>dirname\<close>, \<open>resolve\<close> and \<open>join\<close>.
  \<open>splitSlash\<close> cuts a string at every \<open>/\<close>; \<open>normalizeString\<close> drops empty
  and \<open>.\<close> segments and lets \<open>..\<close> remove the segment before it.
\<close>

fun splitSlash :: "string \<Rightarrow> string list" where
  "splitSlash [] = [[]]"
| "splitSlash (c # cs) =
     (if c = CHR ''/'' then [] # splitSlash cs
      else (case splitSlash cs of [] \<Rightarrow> [[c]] | s # ss \<Rightarrow> (c # s) # ss))"

fun normSegs :: "bool \<Rightarrow> string list \<Rightarrow> string list \<Rightarrow> string list" where
  "normSegs allowAboveRoot acc [] = rev acc"
| "normSegs allowAboveRoot acc (s # ss) =
     (if s = [] \<or> s = ''.'' then normSegs allowAboveRoot acc ss
      else if s = ''..'' then
        (case acc of
           [] \<Rightarrow> normSegs allowAboveRoot (if allowAboveRoot then [''..''] else []) ss
         | a # as \<Rightarrow>
             (if a = ''..'' then normSegs allowAboveRoot (''..'' # acc) ss
              else normSegs allowAboveRoot as ss))
      else normSegs allowAboveRoot (s # acc) ss)"

definition normalizeString :: "string \<Rightarrow> bool \<Rightarrow> string" where
  "normalizeString p allowAboveRoot = js_join ''/'' (normSegs allowAboveRoot [] (splitSlash p))"

definition dirname :: "string \<Rightarrow> string" where
  "dirname p =
     (if p = [] then ''.''
      else
        let hasRoot = (hd p = CHR ''/'');
            r = dropWhile (\<lambda>c. c \<noteq> CHR ''/'') (dropWhile (\<lambda>c. c = CHR ''/'') (rev (tl p)))
        in if r = [] then (if hasRoot then ''/'' else ''.'')
           else if hasRoot \<and> tl r = [] then ''//''
           else hd p # rev (tl r))"

text \<open>
  \<open>path_resolve cwd args\<close> is \<open>resolve(...args)\<close>: the arguments are taken from
  the right until an absolute one is met; the working directory \<open>cwd\<close> of the process
  (an absolute path) is used when none is, so the result always starts with \<open>/\<close>.
\<close>

fun resolveArgs :: "string list \<Rightarrow> string \<Rightarrow> string option" where
  "resolveArgs [] acc = None"
| "resolveArgs (p # ps) acc =
     (if p = [] then resolveArgs ps acc
      else if hd p = CHR ''/'' then Some (p @ ''/'' @ acc)
      else resolveArgs ps (p @ ''/'' @ acc))"

fun relativeAcc :: "string list \<Rightarrow> string \<Rightarrow> string" where
  "relativeAcc [] acc = acc"
| "relativeAcc (p # ps) acc =
     (if p = [] then relativeAcc ps acc else relativeAcc ps (p @ ''/'' @ acc))"

definition path_resolve :: "string \<Rightarrow> string list \<Rightarrow> string" where
  "path_resolve cwd args =
     (case resolveArgs (rev args) [] of
        Some p \<Rightarrow> CHR ''/'' # normalizeString p False
      | None \<Rightarrow> CHR ''/'' # normalizeString (cwd @ ''/'' @ relativeAcc (rev args) []) False)"

definition path_normalize :: "string \<Rightarrow> string" where
  "path_normalize p =
     (if p = [] then ''.''
      else
        let isAbsolute = (hd p = CHR ''/'');
            trailingSeparator = (last p = CHR ''/'');
            q = normalizeString p (\<not> isAbsolute)
        in if q = [] then (if isAbsolute then ''/'' else if trailingSeparator then ''./'' else ''.'')
           else (if isAbsolute then ''/'' else []) @ q @ (if trailingSeparator then ''/'' else []))"

definition path_join :: "string list \<Rightarrow> string" where
  "path_join args =
     (let parts = filter (\<lambda>a. a \<noteq> []) args
      in if parts = [] then ''.'' else path_normalize (js_join ''/'' parts))"

section \<open>Module resolution (import-tracker.ts, \<open>resolveImportPath\<close>)\<close>

record ImportResolutionResult =
  resolvedPath :: "string option"
  exists :: bool
  alternatives :: "string list option"
  error :: "string option"

definition builtInModules :: "string list" where
  "builtInModules =
     [''fs'', ''path'', ''http'', ''https'', ''url'', ''querystring'', ''util'', ''events'',
      ''stream'', ''buffer'', ''crypto'', ''os'', ''cluster'', ''child_process'', ''net'',
      ''dgram'', ''dns'', ''tls'', ''zlib'', ''readline'', ''vm'', ''process'', ''assert'',
      ''timers'', ''async_hooks'', ''worker_threads'', ''console'']"

definition extensions :: "string list" where
  "extensions = [''.ts'', ''.tsx'', ''.js'', ''.jsx'', ''.mts'', ''.mjs'', ''.cjs'', '''']"

text \<open>
  \<open>truthy\<close> is the truth value JavaScript gives a \<open>string | null\<close>: \<open>null\<close> and the
  empty string are false. \<open>findAlternativePaths\<close> computes two local strings and
  returns the empty array it started with.
\<close>

definition truthy :: "string option \<Rightarrow> bool" where
  "truthy v = (case v of None \<Rightarrow> False | Some s \<Rightarrow> s \<noteq> [])"

definition findAlternativePaths :: "string \<Rightarrow> string \<Rightarrow> string list" where
  "findAlternativePaths targetPath searchDir = []"

text \<open>
  The file system enters through \<open>existsSync\<close> (a predicate on paths) and the working
  directory \<open>cwd\<close>. Each \<open>for ... if (existsSync(p)) { foundPath = p; break; }\<close>
  loop is \<open>find\<close> over the candidates in the order of \<open>extensions\<close>.
\<close>

definition resolveImportPath ::
  "(string \<Rightarrow> bool) \<Rightarrow> string \<Rightarrow> string \<Rightarrow> string \<Rightarrow> ImportResolutionResult" where
  "resolveImportPath existsSync cwd importPath fromFile =
     (if importPath \<in> set builtInModules \<or> startsWith importPath ''node:'' then
        \<lparr>resolvedPath = Some importPath, exists = True, alternatives = None, error = None\<rparr>
      else if \<not> startsWith importPath ''.'' \<and> \<not> startsWith importPath ''/'' then
        \<lparr>resolvedPath = Some importPath, exists = True, alternatives = None, error = None\<rparr>
      else
        let fromDir = dirname fromFile;
            resolved = path_resolve cwd [fromDir, importPath];
            found1 = find existsSync (map (\<lambda>ext. resolved @ ext) extensions);
            found2 = (if \<not> truthy found1
                      then (case find existsSync
                                   (map (\<lambda>ext. path_join [resolved, ''index'' @ ext]) extensions) of
                              Some p \<Rightarrow> Some p
                            | None \<Rightarrow> found1)
                      else found1);
            found3 = (if \<not> truthy found2
                      then (if existsSync (path_join [resolved, ''package.json''])
                            then Some resolved else found2)
                      else found2)
        in if truthy found3 then
             \<lparr>resolvedPath = found3, exists = True, alternatives = None, error = None\<rparr>
           else
             \<lparr>resolvedPath = None, exists = False,
              alternatives = Some (findAlternativePaths resolved fromDir),
              error = Some (''Import path '' @ [CHR 0x27] @ importPath @ [CHR 0x27]
                            @ '' could not be resolved from '' @ fromFile)\<rparr>)"


section \<open>Errors\<close>

text \<open>
  Every exception of the program is a value. \<open>AnalysisError message filePath\<close> is the
  class of \<open>types/index.ts\<close> (its optional \<open>line\<close> is never passed);
  \<open>TypeError\<close> is what the language raises when a property of \<open>undefined\<close> is read or
  a value that is no function is called; \<open>OtherError\<close> stands for any other \<open>Error\<close>.
\<close>

datatype js_error =
    AnalysisError string "string option"
  | TypeError string
  | OtherError string

fun message :: "js_error \<Rightarrow> string" where
  "message (AnalysisError m f) = m"
| "message (TypeError m) = m"
| "message (OtherError m) = m"

fun isAnalysisError :: "js_error \<Rightarrow> bool" where
  "isAnalysisError (AnalysisError m f) = True"
| "isAnalysisError e = False"

text \<open>
  A \<open>catch (error) { if (error instanceof AnalysisError) throw error;
  throw new AnalysisError(prefix + error.message, filePath) }\<close> block.
\<close>

definition rethrowAsAnalysisError :: "string \<Rightarrow> string \<Rightarrow> js_error \<Rightarrow> js_error" where
  "rethrowAsAnalysisError prefix filePath e =
     (if isAnalysisError e then e else AnalysisError (prefix @ message e) (Some filePath))"

section \<open>Syntax trees\<close>

text \<open>
  The syntax tree of the parser, restricted to the node kinds the visitors inspect; every
  other kind is \<open>Other\<close> with its children. \<open>loc\<close> is \<open>node.loc?.start\<close> (line, column).
  A parameter is an \<open>Identifier\<close> (name, \<open>optional\<close>, type annotation) or another
  pattern; expressions inside parameters are not part of the model. The key of a class
  method is given as \<open>Some name\<close> when it is an \<open>Identifier\<close>. Nodes no handler
  looks at (the identifier naming a declaration, a block around statements) may be left
  out of a tree or given as \<open>Other\<close>: no result depends on them.
\<close>

type_synonym loc = "(nat \<times> nat) option"

datatype tstype =
    TSStringKeyword | TSNumberKeyword | TSBooleanKeyword | TSVoidKeyword
  | TSAnyKeyword | TSUnknownKeyword
  | TSTypeReference "string option"
  | TSArrayType tstype
  | TSUnionType "tstype list"
  | TSOtherType

datatype pattern = IdentifierParam string bool "tstype option" | OtherPattern

record fn =
  params :: "pattern list"
  async :: bool
  generator :: bool
  returnType :: "tstype option"

datatype fnKind = FunctionDeclarationKind | FunctionExpressionKind | ArrowFunctionExpressionKind

datatype exportSpec =
    ExportSpecifier string string loc
  | ExportNamespaceSpecifier string
  | ExportDefaultSpecifier string

datatype importSpec =
    ImportDefaultSpecifier string
  | ImportNamespaceSpecifier string
  | ImportSpecifier string string

datatype node =
    Program "node list"
  | FunctionDeclaration "string option" fn loc "node list"
  | VariableDeclaration "node list"
  | VariableDeclarator "string option" loc "node list"
  | ClassDeclaration "string option" loc "node list"
  | ClassMethod "string option" bool fn loc "node list"
  | TSInterfaceDeclaration string loc
  | TSTypeAliasDeclaration string loc
  | ExportNamedDeclaration "node option" "exportSpec list" loc
  | ExportDefaultDeclaration node loc
  | ExportAllDeclaration string loc
  | ImportDeclaration string "importSpec list" bool loc
  | CallExpression node "node list" loc
  | Identifier string
  | Import
  | StringLiteral string
  | Other "node list"

fun nodeType :: "node \<Rightarrow> string" where
  "nodeType (Program b) = ''Program''"
| "nodeType (FunctionDeclaration i f l b) = ''FunctionDeclaration''"
| "nodeType (VariableDeclaration ds) = ''VariableDeclaration''"
| "nodeType (VariableDeclarator i l b) = ''VariableDeclarator''"
| "nodeType (ClassDeclaration i l ms) = ''ClassDeclaration''"
| "nodeType (ClassMethod k c f l b) = ''ClassMethod''"
| "nodeType (TSInterfaceDeclaration n l) = ''TSInterfaceDeclaration''"
| "nodeType (TSTypeAliasDeclaration n l) = ''TSTypeAliasDeclaration''"
| "nodeType (ExportNamedDeclaration d ss l) = ''ExportNamedDeclaration''"
| "nodeType (ExportDefaultDeclaration d l) = ''ExportDefaultDeclaration''"
| "nodeType (ExportAllDeclaration s l) = ''ExportAllDeclaration''"
| "nodeType (ImportDeclaration s ss k l) = ''ImportDeclaration''"
| "nodeType (CallExpression c as l) = ''CallExpression''"
| "nodeType (Identifier n) = ''Identifier''"
| "nodeType Import = ''Import''"
| "nodeType (StringLiteral v) = ''StringLiteral''"
| "nodeType (Other b) = ''Other''"

text \<open>
  The traversal library enters a node before its children and the children in source
  order; a visitor given as a plain function is an \<open>enter\<close> handler. \<open>preorder\<close> lists
  the nodes of a tree in the order their handlers run.
\<close>

fun preorder :: "node \<Rightarrow> node list" where
  "preorder (Program b) = Program b # concat (map preorder b)"
| "preorder (FunctionDeclaration i f l b) = FunctionDeclaration i f l b # concat (map preorder b)"
| "preorder (VariableDeclaration ds) = VariableDeclaration ds # concat (map preorder ds)"
| "preorder (VariableDeclarator i l b) = VariableDeclarator i l b # concat (map preorder b)"
| "preorder (ClassDeclaration i l ms) = ClassDeclaration i l ms # concat (map preorder ms)"
| "preorder (ClassMethod k c f l b) = ClassMethod k c f l b # concat (map preorder b)"
| "preorder (TSInterfaceDeclaration n l) = [TSInterfaceDeclaration n l]"
| "preorder (TSTypeAliasDeclaration n l) = [TSTypeAliasDeclaration n l]"
| "preorder (ExportNamedDeclaration d ss l) =
     ExportNamedDeclaration d ss l # (case d of None \<Rightarrow> [] | Some n \<Rightarrow> preorder n)"
| "preorder (ExportDefaultDeclaration d l) = ExportDefaultDeclaration d l # preorder d"
| "preorder (ExportAllDeclaration s l) = [ExportAllDeclaration s l]"
| "preorder (ImportDeclaration s ss k l) = [ImportDeclaration s ss k l]"
| "preorder (CallExpression c as l) =
     CallExpression c as l # preorder c @ concat (map preorder as)"
| "preorder (Identifier n) = [Identifier n]"
| "preorder Import = [Import]"
| "preorder (StringLiteral v) = [StringLiteral v]"
| "preorder (Other b) = Other b # concat (map preorder b)"

text \<open>
  A visitor object is an object literal: a list of (node kind, handler) properties in
  the order they are written. When a key is written twice the later property replaces
  the earlier one, so the handler of a kind is the last one written for it.
  \<open>babel_traverse\<close> runs the handlers over the tree and stops at the first exception.
\<close>

type_synonym 'a visitors = "(string \<times> (node \<Rightarrow> 'a \<Rightarrow> js_error + 'a)) list"

definition handlerOf :: "'a visitors \<Rightarrow> string \<Rightarrow> (node \<Rightarrow> 'a \<Rightarrow> js_error + 'a) option" where
  "handlerOf vs k = map_of (rev vs) k"

fun visitAll :: "'a visitors \<Rightarrow> node list \<Rightarrow> 'a \<Rightarrow> js_error + 'a" where
  "visitAll vs [] acc = Inr acc"
| "visitAll vs (n # ns) acc =
     (case handlerOf vs (nodeType n) of
        None \<Rightarrow> visitAll vs ns acc
      | Some h \<Rightarrow> (case h n acc of Inl e \<Rightarrow> Inl e | Inr acc' \<Rightarrow> visitAll vs ns acc'))"

definition babel_traverse :: "'a visitors \<Rightarrow> node \<Rightarrow> 'a \<Rightarrow> js_error + 'a" where
  "babel_traverse vs ast acc = visitAll vs (preorder ast) acc"

section \<open>The analyzer (ast-analyzer.ts)\<close>

subsection \<open>Signature strings\<close>

fun tsTypeToString :: "tstype \<Rightarrow> string" where
  "tsTypeToString TSStringKeyword = ''string''"
| "tsTypeToString TSNumberKeyword = ''number''"
| "tsTypeToString TSBooleanKeyword = ''boolean''"
| "tsTypeToString TSVoidKeyword = ''void''"
| "tsTypeToString TSAnyKeyword = ''any''"
| "tsTypeToString TSUnknownKeyword = ''unknown''"
| "tsTypeToString (TSTypeReference (Some n)) = n"
| "tsTypeToString (TSTypeReference None) = ''unknown''"
| "tsTypeToString (TSArrayType t) = tsTypeToString t @ ''[]''"
| "tsTypeToString (TSUnionType ts) = js_join '' | '' (map tsTypeToString ts)"
| "tsTypeToString TSOtherType = ''unknown''"

definition extractTypeAnnotation :: "pattern \<Rightarrow> string option" where
  "extractTypeAnnotation param =
     (case param of
        IdentifierParam n opt (Some t) \<Rightarrow> Some (tsTypeToString t)
      | _ \<Rightarrow> None)"

definition extractReturnType :: "fn \<Rightarrow> string option" where
  "extractReturnType f = map_option tsTypeToString (returnType f)"

definition paramString :: "pattern \<Rightarrow> string" where
  "paramString param =
     (case param of
        IdentifierParam n opt t \<Rightarrow> (if opt then n @ ''?'' else n)
      | OtherPattern \<Rightarrow> ''(...)'')"

definition generateFunctionSignature :: "fnKind \<Rightarrow> string option \<Rightarrow> fn \<Rightarrow> string" where
  "generateFunctionSignature kind ident f =
     (let name = (case ident of Some n \<Rightarrow> n | None \<Rightarrow> ''anonymous'');
          ps = js_join '', '' (map paramString (params f));
          sig0 = name @ ''('' @ ps @ '')'';
          sig1 = (if async f then ''async '' @ sig0 else sig0);
          sig2 = (if generator f \<and> kind \<noteq> ArrowFunctionExpressionKind then ''function* '' @ sig1
                  else if kind \<noteq> ArrowFunctionExpressionKind then ''function '' @ sig1
                  else sig1);
          ret = extractReturnType f
      in (case ret of Some r \<Rightarrow> (if r \<noteq> [] then sig2 @ '': '' @ r else sig2) | None \<Rightarrow> sig2))"

definition generateMethodSignature :: "string option \<Rightarrow> fn \<Rightarrow> string" where
  "generateMethodSignature key f =
     (let name = (case key of Some n \<Rightarrow> n | None \<Rightarrow> ''anonymous'');
          ps = js_join '', '' (map paramString (params f));
          sig0 = name @ ''('' @ ps @ '')'';
          sig1 = (if async f then ''async '' @ sig0 else sig0);
          sig2 = (if generator f then ''*'' @ sig1 else sig1);
          ret = extractReturnType f
      in (case ret of Some r \<Rightarrow> (if r \<noteq> [] then sig2 @ '': '' @ r else sig2) | None \<Rightarrow> sig2))"

subsection \<open>The receiver of a visitor\<close>

text \<open>
  The handlers of \<open>extractSymbols\<close> and \<open>extractFunctionSignatures\<close> are methods of an
  object literal (\<open>FunctionDeclaration(path) { ... }\<close>), not arrow functions, so
  \<open>this\<close> inside them is whatever the caller passes. The caller is the traversal
  library, which was given the tree and the visitor object only
  (\<open>traverse.default(ast, visitors)\<close>) and calls a handler with its traversal state as
  receiver; no state was passed, so the receiver is \<open>undefined\<close>. Reading
  \<open>this.generateFunctionSignature\<close> there raises a \<open>TypeError\<close>.
  \<open>This_instance\<close> is the receiver the handlers were written for (the analyzer); the
  functions below take the receiver as a parameter so that both can be evaluated.
\<close>

datatype js_this = This_undefined | This_instance

definition this_method :: "js_this \<Rightarrow> string \<Rightarrow> 'a \<Rightarrow> js_error + 'a" where
  "this_method this member result =
     (case this of
        This_undefined \<Rightarrow>
          Inl (TypeError (''Cannot read properties of undefined (reading '' @ [CHR 0x27]
                          @ member @ [CHR 0x27] @ '')''))
      | This_instance \<Rightarrow> Inr result)"

subsection \<open>Symbols\<close>

datatype symbolType = TFunction | TClass | TVariable | TImport | TType | TInterface

record SymbolInfo =
  sym_name :: string
  sym_type :: symbolType
  sym_filePath :: string
  sym_line :: "nat option"
  sym_column :: "nat option"
  sym_signature :: "string option"
  exported :: bool

text \<open>
  \<open>promote n symbols\<close> is
  \<open>const symbol = symbols.find(s => s.name === n); if (symbol) symbol.exported = true\<close>:
  the first symbol collected so far under that name is marked.
\<close>

fun promote :: "string \<Rightarrow> SymbolInfo list \<Rightarrow> SymbolInfo list" where
  "promote n [] = []"
| "promote n (s # ss) =
     (if sym_name s = n then s\<lparr>exported := True\<rparr> # ss else s # promote n ss)"

definition visitFunctionDeclaration ::
  "js_this \<Rightarrow> string \<Rightarrow> node \<Rightarrow> SymbolInfo list \<Rightarrow> js_error + SymbolInfo list" where
  "visitFunctionDeclaration this filePath n symbols =
     (case n of
        FunctionDeclaration (Some name) f l b \<Rightarrow>
          (case this_method this ''generateFunctionSignature''
                  (generateFunctionSignature FunctionDeclarationKind (Some name) f) of
             Inl e \<Rightarrow> Inl e
           | Inr sig \<Rightarrow>
               Inr (symbols @
                 [\<lparr>sym_name = name, sym_type = TFunction, sym_filePath = filePath,
                   sym_line = map_option fst l, sym_column = map_option snd l,
                   sym_signature = Some sig, exported = False\<rparr>]))
      | _ \<Rightarrow> Inr symbols)"

definition pushDeclarator :: "string \<Rightarrow> node \<Rightarrow> SymbolInfo list \<Rightarrow> SymbolInfo list" where
  "pushDeclarator filePath d symbols =
     (case d of
        VariableDeclarator (Some name) l b \<Rightarrow>
          symbols @
            [\<lparr>sym_name = name, sym_type = TVariable, sym_filePath = filePath,
              sym_line = map_option fst l, sym_column = map_option snd l,
              sym_signature = None, exported = False\<rparr>]
      | _ \<Rightarrow> symbols)"

definition visitVariableDeclaration ::
  "string \<Rightarrow> node \<Rightarrow> SymbolInfo list \<Rightarrow> js_error + SymbolInfo list" where
  "visitVariableDeclaration filePath n symbols =
     (case n of
        VariableDeclaration ds \<Rightarrow> Inr (fold (pushDeclarator filePath) ds symbols)
      | _ \<Rightarrow> Inr symbols)"

fun pushMethods ::
  "js_this \<Rightarrow> string \<Rightarrow> node list \<Rightarrow> SymbolInfo list \<Rightarrow> js_error + SymbolInfo list" where
  "pushMethods this filePath [] symbols = Inr symbols"
| "pushMethods this filePath (m # ms) symbols =
     (case m of
        ClassMethod (Some key) computed f l b \<Rightarrow>
          (if computed then pushMethods this filePath ms symbols
           else
             (case this_method this ''generateMethodSignature''
                     (generateMethodSignature (Some key) f) of
                Inl e \<Rightarrow> Inl e
              | Inr sig \<Rightarrow>
                  pushMethods this filePath ms (symbols @
                    [\<lparr>sym_name = key, sym_type = TFunction, sym_filePath = filePath,
                      sym_line = map_option fst l, sym_column = map_option snd l,
                      sym_signature = Some sig, exported = False\<rparr>])))
      | _ \<Rightarrow> pushMethods this filePath ms symbols)"

definition visitClassDeclaration ::
  "js_this \<Rightarrow> string \<Rightarrow> node \<Rightarrow> SymbolInfo list \<Rightarrow> js_error + SymbolInfo list" where
  "visitClassDeclaration this filePath n symbols =
     (case n of
        ClassDeclaration ident l members \<Rightarrow>
          pushMethods this filePath members
            (case ident of
               Some name \<Rightarrow>
                 symbols @
                   [\<lparr>sym_name = name, sym_type = TClass, sym_filePath = filePath,
                     sym_line = map_option fst l, sym_column = map_option snd l,
                     sym_signature = None, exported = False\<rparr>]
             | None \<Rightarrow> symbols)
      | _ \<Rightarrow> Inr symbols)"

definition visitTSInterfaceDeclaration ::
  "string \<Rightarrow> node \<Rightarrow> SymbolInfo list \<Rightarrow> js_error + SymbolInfo list" where
  "visitTSInterfaceDeclaration filePath n symbols =
     (case n of
        TSInterfaceDeclaration name l \<Rightarrow>
          Inr (symbols @
            [\<lparr>sym_name = name, sym_type = TInterface, sym_filePath = filePath,
              sym_line = map_option fst l, sym_column = map_option snd l,
              sym_signature = None, exported = False\<rparr>])
      | _ \<Rightarrow> Inr symbols)"

definition visitTSTypeAliasDeclaration ::
  "string \<Rightarrow> node \<Rightarrow> SymbolInfo list \<Rightarrow> js_error + SymbolInfo list" where
  "visitTSTypeAliasDeclaration filePath n symbols =
     (case n of
        TSTypeAliasDeclaration name l \<Rightarrow>
          Inr (symbols @
            [\<lparr>sym_name = name, sym_type = TType, sym_filePath = filePath,
              sym_line = map_option fst l, sym_column = map_option snd l,
              sym_signature = None, exported = False\<rparr>])
      | _ \<Rightarrow> Inr symbols)"

definition promoteDeclarator :: "node \<Rightarrow> SymbolInfo list \<Rightarrow> SymbolInfo list" where
  "promoteDeclarator d symbols =
     (case d of VariableDeclarator (Some name) l b \<Rightarrow> promote name symbols | _ \<Rightarrow> symbols)"

definition promoteSpecifier :: "exportSpec \<Rightarrow> SymbolInfo list \<Rightarrow> SymbolInfo list" where
  "promoteSpecifier sp symbols =
     (case sp of ExportSpecifier local exportedName l \<Rightarrow> promote local symbols | _ \<Rightarrow> symbols)"

definition visitExportNamedDeclaration ::
  "node \<Rightarrow> SymbolInfo list \<Rightarrow> js_error + SymbolInfo list" where
  "visitExportNamedDeclaration n symbols =
     (case n of
        ExportNamedDeclaration decl specs l \<Rightarrow>
          Inr (fold promoteSpecifier specs
            (case decl of
               Some (FunctionDeclaration (Some name) f l' b) \<Rightarrow> promote name symbols
             | Some (ClassDeclaration (Some name) l' ms) \<Rightarrow> promote name symbols
             | Some (VariableDeclaration ds) \<Rightarrow> fold promoteDeclarator ds symbols
             | _ \<Rightarrow> symbols))
      | _ \<Rightarrow> Inr symbols)"

definition visitExportDefaultDeclaration ::
  "node \<Rightarrow> SymbolInfo list \<Rightarrow> js_error + SymbolInfo list" where
  "visitExportDefaultDeclaration n symbols =
     (case n of
        ExportDefaultDeclaration (FunctionDeclaration (Some name) f l' b) l \<Rightarrow>
          Inr (promote name symbols)
      | ExportDefaultDeclaration (ClassDeclaration (Some name) l' ms) l \<Rightarrow>
          Inr (promote name symbols)
      | _ \<Rightarrow> Inr symbols)"

definition symbolVisitors :: "js_this \<Rightarrow> string \<Rightarrow> SymbolInfo list visitors" where
  "symbolVisitors this filePath =
     [(''FunctionDeclaration'', visitFunctionDeclaration this filePath),
      (''VariableDeclaration'', visitVariableDeclaration filePath),
      (''ClassDeclaration'', visitClassDeclaration this filePath),
      (''TSInterfaceDeclaration'', visitTSInterfaceDeclaration filePath),
      (''TSTypeAliasDeclaration'', visitTSTypeAliasDeclaration filePath),
      (''ExportNamedDeclaration'', visitExportNamedDeclaration),
      (''ExportDefaultDeclaration'', visitExportDefaultDeclaration)]"

definition extractSymbolsWith :: "js_this \<Rightarrow> node \<Rightarrow> string \<Rightarrow> js_error + SymbolInfo list" where
  "extractSymbolsWith this ast filePath = babel_traverse (symbolVisitors this filePath) ast []"

definition extractSymbols :: "node \<Rightarrow> string \<Rightarrow> js_error + SymbolInfo list" where
  "extractSymbols ast filePath = extractSymbolsWith This_undefined ast filePath"

subsection \<open>Function signatures\<close>

record Parameter =
  par_name :: string
  par_type :: "string option"
  par_optional :: bool

record FunctionSignature =
  sig_name :: string
  parameters :: "Parameter list"
  sig_returnType :: "string option"
  sig_filePath :: string
  sig_line :: "nat option"
  isAsync :: bool
  isGenerator :: bool

text \<open>
  \<open>mkParameters\<close> is \<open>node.params.map((param) => ({ name, type:
  this.extractTypeAnnotation(param), optional }))\<close>; the arrow function takes \<open>this\<close>
  from the handler around it.
\<close>

fun mkParameters :: "js_this \<Rightarrow> pattern list \<Rightarrow> js_error + Parameter list" where
  "mkParameters this [] = Inr []"
| "mkParameters this (p # ps) =
     (case this_method this ''extractTypeAnnotation'' (extractTypeAnnotation p) of
        Inl e \<Rightarrow> Inl e
      | Inr ty \<Rightarrow>
          (case mkParameters this ps of
             Inl e \<Rightarrow> Inl e
           | Inr rest \<Rightarrow>
               Inr (\<lparr>par_name = (case p of IdentifierParam n opt t \<Rightarrow> n | OtherPattern \<Rightarrow> ''unknown''),
                     par_type = ty,
                     par_optional = (case p of IdentifierParam n opt t \<Rightarrow> opt | OtherPattern \<Rightarrow> False)\<rparr>
                    # rest)))"

definition pushSignature ::
  "js_this \<Rightarrow> string \<Rightarrow> string \<Rightarrow> fn \<Rightarrow> loc \<Rightarrow> FunctionSignature list
     \<Rightarrow> js_error + FunctionSignature list" where
  "pushSignature this filePath name f l signatures =
     (case mkParameters this (params f) of
        Inl e \<Rightarrow> Inl e
      | Inr ps \<Rightarrow>
          (case this_method this ''extractReturnType'' (extractReturnType f) of
             Inl e \<Rightarrow> Inl e
           | Inr rt \<Rightarrow>
               Inr (signatures @
                 [\<lparr>sig_name = name, parameters = ps, sig_returnType = rt,
                   sig_filePath = filePath, sig_line = map_option fst l,
                   isAsync = async f, isGenerator = generator f\<rparr>])))"

definition visitSigFunctionDeclaration ::
  "js_this \<Rightarrow> string \<Rightarrow> node \<Rightarrow> FunctionSignature list \<Rightarrow> js_error + FunctionSignature list" where
  "visitSigFunctionDeclaration this filePath n signatures =
     (case n of
        FunctionDeclaration (Some name) f l b \<Rightarrow> pushSignature this filePath name f l signatures
      | _ \<Rightarrow> Inr signatures)"

definition visitSigClassMethod ::
  "js_this \<Rightarrow> string \<Rightarrow> node \<Rightarrow> FunctionSignature list \<Rightarrow> js_error + FunctionSignature list" where
  "visitSigClassMethod this filePath n signatures =
     (case n of
        ClassMethod (Some key) computed f l b \<Rightarrow> pushSignature this filePath key f l signatures
      | _ \<Rightarrow> Inr signatures)"

definition signatureVisitors :: "js_this \<Rightarrow> string \<Rightarrow> FunctionSignature list visitors" where
  "signatureVisitors this filePath =
     [(''FunctionDeclaration'', visitSigFunctionDeclaration this filePath),
      (''ClassMethod'', visitSigClassMethod this filePath)]"

definition extractFunctionSignaturesWith ::
  "js_this \<Rightarrow> node \<Rightarrow> string \<Rightarrow> js_error + FunctionSignature list" where
  "extractFunctionSignaturesWith this ast filePath =
     babel_traverse (signatureVisitors this filePath) ast []"

definition extractFunctionSignatures :: "node \<Rightarrow> string \<Rightarrow> js_error + FunctionSignature list" where
  "extractFunctionSignatures ast filePath = extractFunctionSignaturesWith This_undefined ast filePath"

subsection \<open>Parsing and the tree cache\<close>

text \<open>
  The environment of the program: \<open>readFileSync\<close> (\<open>Inl\<close> the message of the error
  it throws), \<open>existsSync\<close>, the parser (\<open>Inl\<close> the message of its syntax error) and
  the working directory. The analyzer's \<open>cache\<close> is a map from file paths to trees,
  passed in and returned.
\<close>

record env =
  fs_readFileSync :: "string \<Rightarrow> string + string"
  fs_existsSync :: "string \<Rightarrow> bool"
  parser_parse :: "string \<Rightarrow> string + node"
  process_cwd :: string

type_synonym astCache = "string \<rightharpoonup> node"

definition parse :: "env \<Rightarrow> astCache \<Rightarrow> string \<Rightarrow> string \<Rightarrow> (js_error + node) \<times> astCache" where
  "parse E cache code filePath =
     (case cache filePath of
        Some ast \<Rightarrow> (Inr ast, cache)
      | None \<Rightarrow>
          (case parser_parse E code of
             Inr ast \<Rightarrow> (Inr ast, cache(filePath \<mapsto> ast))
           | Inl msg \<Rightarrow>
               (Inl (AnalysisError (''Failed to parse file: '' @ msg) (Some filePath)), cache)))"

definition parseFile :: "env \<Rightarrow> astCache \<Rightarrow> string \<Rightarrow> (js_error + node) \<times> astCache" where
  "parseFile E cache filePath =
     (case fs_readFileSync E filePath of
        Inl msg \<Rightarrow>
          (Inl (rethrowAsAnalysisError ''Failed to read file: '' filePath (OtherError msg)), cache)
      | Inr code \<Rightarrow>
          (case parse E cache code filePath of
             (Inl e, c) \<Rightarrow> (Inl (rethrowAsAnalysisError ''Failed to read file: '' filePath e), c)
           | (Inr ast, c) \<Rightarrow> (Inr ast, c)))"

section \<open>The import tracker (import-tracker.ts)\<close>

record ImportInfo =
  imp_path :: string
  imp_source :: string
  specifiers :: "string list"
  isTypeOnly :: bool
  imp_line :: "nat option"

record ExportInfo =
  exp_name :: string
  exp_type :: symbolType
  exp_filePath :: string
  exp_line :: "nat option"
  exp_signature :: "string option"

record tracker =
  analyzerCache :: astCache
  exportsCache :: "string \<rightharpoonup> ExportInfo list"
  importsCache :: "string \<rightharpoonup> ImportInfo list"

text \<open>
  \<open>extractImports\<close> and \<open>extractExports\<close> start their walk with
  \<open>this.analyzer["traverse"](ast, { ... })\<close>. The class \<open>ASTAnalyzer\<close> declares the
  field \<open>cache\<close> and the methods \<open>parse\<close>, \<open>parseFile\<close>, \<open>extractSymbols\<close>,
  \<open>extractFunctionSignatures\<close>, \<open>findReferences\<close>, \<open>generateFunctionSignature\<close>,
  \<open>generateMethodSignature\<close>, \<open>extractTypeAnnotation\<close>, \<open>extractReturnType\<close>,
  \<open>tsTypeToString\<close>, \<open>clearCache\<close> and \<open>getCacheSize\<close>; it extends no class and
  nothing adds a member to it. \<open>analyzer_traverse\<close> is the value of the property read:
  \<open>None\<close> for \<open>undefined\<close>. Calling it raises a \<open>TypeError\<close> inside the \<open>try\<close>,
  after the file was parsed and before any handler runs.
\<close>

definition analyzer_traverse :: "('a visitors \<Rightarrow> node \<Rightarrow> 'a \<Rightarrow> js_error + 'a) option" where
  "analyzer_traverse = None"

definition callTraverse ::
  "('a visitors \<Rightarrow> node \<Rightarrow> 'a \<Rightarrow> js_error + 'a) option \<Rightarrow> 'a visitors \<Rightarrow> node \<Rightarrow> 'a
     \<Rightarrow> js_error + 'a" where
  "callTraverse member vs ast acc =
     (case member of
        None \<Rightarrow> Inl (TypeError ''this.analyzer.traverse is not a function'')
      | Some traverse \<Rightarrow> traverse vs ast acc)"

subsection \<open>Imports\<close>

definition specifierString :: "importSpec \<Rightarrow> string" where
  "specifierString sp =
     (case sp of
        ImportDefaultSpecifier local \<Rightarrow> local
      | ImportNamespaceSpecifier local \<Rightarrow> ''* as '' @ local
      | ImportSpecifier imported local \<Rightarrow>
          (if imported = local then imported else imported @ '' as '' @ local))"

definition visitImportDeclaration :: "node \<Rightarrow> ImportInfo list \<Rightarrow> js_error + ImportInfo list" where
  "visitImportDeclaration n imports =
     (case n of
        ImportDeclaration source specs typeOnly l \<Rightarrow>
          Inr (imports @
            [\<lparr>imp_path = source, imp_source = source,
              specifiers = filter (\<lambda>s. s \<noteq> []) (map specifierString specs),
              isTypeOnly = typeOnly, imp_line = map_option fst l\<rparr>])
      | _ \<Rightarrow> Inr imports)"

text \<open>
  \<open>visitCall callee marker\<close> is the body shared by the two \<open>CallExpression\<close>
  handlers: the callee is the identifier \<open>callee\<close>, there is an argument, and the
  first argument is a string literal.
\<close>

definition visitCall :: "string \<Rightarrow> string \<Rightarrow> node \<Rightarrow> ImportInfo list \<Rightarrow> js_error + ImportInfo list" where
  "visitCall calleeName marker n imports =
     (case n of
        CallExpression callee args l \<Rightarrow>
          (if callee = Identifier calleeName then
             (case args of
                StringLiteral v # rest \<Rightarrow>
                  Inr (imports @
                    [\<lparr>imp_path = v, imp_source = v, specifiers = [marker],
                      isTypeOnly = False, imp_line = map_option fst l\<rparr>])
              | _ \<Rightarrow> Inr imports)
           else Inr imports)
      | _ \<Rightarrow> Inr imports)"

text \<open>
  The visitor object of \<open>extractImports\<close>, as written: the key \<open>CallExpression\<close>
  occurs twice, first for dynamic imports, then for \<open>require\<close>.
\<close>

definition importVisitors :: "ImportInfo list visitors" where
  "importVisitors =
     [(''ImportDeclaration'', visitImportDeclaration),
      (''CallExpression'', visitCall ''import'' ''dynamic''),
      (''CallExpression'', visitCall ''require'' ''require'')]"

definition extractImports_try :: "env \<Rightarrow> tracker \<Rightarrow> string \<Rightarrow> (js_error + ImportInfo list) \<times> tracker" where
  "extractImports_try E st filePath =
     (case parseFile E (analyzerCache st) filePath of
        (Inl e, c) \<Rightarrow> (Inl e, st\<lparr>analyzerCache := c\<rparr>)
      | (Inr ast, c) \<Rightarrow>
          (case callTraverse analyzer_traverse importVisitors ast [] of
             Inl e \<Rightarrow> (Inl e, st\<lparr>analyzerCache := c\<rparr>)
           | Inr imports \<Rightarrow>
               (Inr imports,
                st\<lparr>analyzerCache := c, importsCache := (importsCache st)(filePath \<mapsto> imports)\<rparr>)))"

definition extractImports :: "env \<Rightarrow> tracker \<Rightarrow> string \<Rightarrow> (js_error + ImportInfo list) \<times> tracker" where
  "extractImports E st filePath =
     (case importsCache st filePath of
        Some imports \<Rightarrow> (Inr imports, st)
      | None \<Rightarrow>
          (case extractImports_try E st filePath of
             (Inl e, st') \<Rightarrow> (Inl (rethrowAsAnalysisError ''Failed to extract imports: '' filePath e), st')
           | (Inr imports, st') \<Rightarrow> (Inr imports, st')))"

subsection \<open>Exports\<close>

definition mkExport :: "string \<Rightarrow> symbolType \<Rightarrow> string \<Rightarrow> loc \<Rightarrow> string option \<Rightarrow> ExportInfo" where
  "mkExport name ty filePath l sig =
     \<lparr>exp_name = name, exp_type = ty, exp_filePath = filePath,
      exp_line = map_option fst l, exp_signature = sig\<rparr>"

definition exportDeclarator :: "string \<Rightarrow> node \<Rightarrow> ExportInfo list \<Rightarrow> ExportInfo list" where
  "exportDeclarator filePath d exports =
     (case d of
        VariableDeclarator (Some name) l b \<Rightarrow> exports @ [mkExport name TVariable filePath l None]
      | _ \<Rightarrow> exports)"

definition exportSpecifier :: "string \<Rightarrow> exportSpec \<Rightarrow> ExportInfo list \<Rightarrow> ExportInfo list" where
  "exportSpecifier filePath sp exports =
     (case sp of
        ExportSpecifier local exportedName l \<Rightarrow>
          exports @ [mkExport exportedName TVariable filePath l None]
      | _ \<Rightarrow> exports)"

definition visitExportNamed ::
  "js_this \<Rightarrow> string \<Rightarrow> node \<Rightarrow> ExportInfo list \<Rightarrow> js_error + ExportInfo list" where
  "visitExportNamed this filePath n exports =
     (case n of
        ExportNamedDeclaration decl specs l \<Rightarrow>
          (case
             (case decl of
                Some (FunctionDeclaration (Some name) f l' b) \<Rightarrow>
                  (case this_method this ''analyzer''
                          (generateFunctionSignature FunctionDeclarationKind (Some name) f) of
                     Inl e \<Rightarrow> Inl e
                   | Inr sig \<Rightarrow> Inr (exports @ [mkExport name TFunction filePath l' (Some sig)]))
              | Some (ClassDeclaration (Some name) l' ms) \<Rightarrow>
                  Inr (exports @ [mkExport name TClass filePath l' None])
              | Some (VariableDeclaration ds) \<Rightarrow> Inr (fold (exportDeclarator filePath) ds exports)
              | Some (TSTypeAliasDeclaration name l') \<Rightarrow>
                  Inr (exports @ [mkExport name TType filePath l' None])
              | Some (TSInterfaceDeclaration name l') \<Rightarrow>
                  Inr (exports @ [mkExport name TInterface filePath l' None])
              | _ \<Rightarrow> Inr exports) of
             Inl e \<Rightarrow> Inl e
           | Inr exports' \<Rightarrow> Inr (fold (exportSpecifier filePath) specs exports'))
      | _ \<Rightarrow> Inr exports)"

definition visitExportDefault ::
  "js_this \<Rightarrow> string \<Rightarrow> node \<Rightarrow> ExportInfo list \<Rightarrow> js_error + ExportInfo list" where
  "visitExportDefault this filePath n exports =
     (case n of
        ExportDefaultDeclaration (FunctionDeclaration (Some name) f l' b) l \<Rightarrow>
          (case this_method this ''analyzer''
                  (generateFunctionSignature FunctionDeclarationKind (Some name) f) of
             Inl e \<Rightarrow> Inl e
           | Inr sig \<Rightarrow> Inr (exports @ [mkExport ''default'' TFunction filePath l' (Some sig)]))
      | ExportDefaultDeclaration (ClassDeclaration (Some name) l' ms) l \<Rightarrow>
          Inr (exports @ [mkExport ''default'' TClass filePath l' None])
      | ExportDefaultDeclaration (Identifier name) l \<Rightarrow>
          Inr (exports @ [mkExport ''default'' TVariable filePath l None])
      | _ \<Rightarrow> Inr exports)"

definition visitExportAll :: "node \<Rightarrow> ExportInfo list \<Rightarrow> js_error + ExportInfo list" where
  "visitExportAll n exports =
     (case n of
        ExportAllDeclaration source l \<Rightarrow> Inr (exports @ [mkExport ''*'' TVariable source l None])
      | _ \<Rightarrow> Inr exports)"

definition exportVisitors :: "js_this \<Rightarrow> string \<Rightarrow> ExportInfo list visitors" where
  "exportVisitors this filePath =
     [(''ExportNamedDeclaration'', visitExportNamed this filePath),
      (''ExportDefaultDeclaration'', visitExportDefault this filePath),
      (''ExportAllDeclaration'', visitExportAll)]"

definition extractExports_try :: "env \<Rightarrow> tracker \<Rightarrow> string \<Rightarrow> (js_error + ExportInfo list) \<times> tracker" where
  "extractExports_try E st filePath =
     (case parseFile E (analyzerCache st) filePath of
        (Inl e, c) \<Rightarrow> (Inl e, st\<lparr>analyzerCache := c\<rparr>)
      | (Inr ast, c) \<Rightarrow>
          (case callTraverse analyzer_traverse (exportVisitors This_undefined filePath) ast [] of
             Inl e \<Rightarrow> (Inl e, st\<lparr>analyzerCache := c\<rparr>)
           | Inr exports \<Rightarrow>
               (Inr exports,
                st\<lparr>analyzerCache := c, exportsCache := (exportsCache st)(filePath \<mapsto> exports)\<rparr>)))"

definition extractExports :: "env \<Rightarrow> tracker \<Rightarrow> string \<Rightarrow> (js_error + ExportInfo list) \<times> tracker" where
  "extractExports E st filePath =
     (case exportsCache st filePath of
        Some exports \<Rightarrow> (Inr exports, st)
      | None \<Rightarrow>
          (case extractExports_try E st filePath of
             (Inl e, st') \<Rightarrow> (Inl (rethrowAsAnalysisError ''Failed to extract exports: '' filePath e), st')
           | (Inr exports, st') \<Rightarrow> (Inr exports, st')))"

subsection \<open>The dependency graph\<close>

definition addDependency :: "env \<Rightarrow> string \<Rightarrow> ImportInfo \<Rightarrow> string set \<Rightarrow> string set" where
  "addDependency E filePath imp dependencies =
     (if \<not> startsWith (imp_path imp) ''.'' \<and> \<not> startsWith (imp_path imp) ''/'' then dependencies
      else
        let resolved = resolveImportPath (fs_existsSync E) (process_cwd E) (imp_path imp) filePath
        in (case resolvedPath resolved of
              Some p \<Rightarrow> (if exists resolved \<and> p \<noteq> [] then insert p dependencies else dependencies)
            | None \<Rightarrow> dependencies))"

fun buildGraphLoop ::
  "env \<Rightarrow> tracker \<Rightarrow> string list \<Rightarrow> (string \<rightharpoonup> string set)
     \<Rightarrow> (js_error + (string \<rightharpoonup> string set)) \<times> tracker" where
  "buildGraphLoop E st [] graph = (Inr graph, st)"
| "buildGraphLoop E st (filePath # rest) graph =
     (case extractImports E st filePath of
        (Inl e, st') \<Rightarrow> (Inl e, st')
      | (Inr imports, st') \<Rightarrow>
          buildGraphLoop E st' rest
            (graph(filePath \<mapsto> fold (addDependency E filePath) imports {})))"

definition buildDependencyGraph ::
  "env \<Rightarrow> tracker \<Rightarrow> string list \<Rightarrow> (js_error + (string \<rightharpoonup> string set)) \<times> tracker" where
  "buildDependencyGraph E st filePaths = buildGraphLoop E st filePaths Map.empty"

text \<open>
  \<open>findImporters\<close> also computes \<open>relative(workspaceRoot, filePath)\<close> and never uses
  it. The inner loop pushes the file at the first import that resolves to \<open>filePath\<close>
  and breaks.
\<close>

fun findImportersLoop ::
  "env \<Rightarrow> tracker \<Rightarrow> string \<Rightarrow> string list \<Rightarrow> string list \<Rightarrow> (js_error + string list) \<times> tracker" where
  "findImportersLoop E st filePath [] importers = (Inr importers, st)"
| "findImportersLoop E st filePath (file # rest) importers =
     (case extractImports E st file of
        (Inl e, st') \<Rightarrow> (Inl e, st')
      | (Inr imports, st') \<Rightarrow>
          findImportersLoop E st' filePath rest
            (if list_ex (\<lambda>imp. resolvedPath (resolveImportPath (fs_existsSync E) (process_cwd E)
                                   (imp_path imp) file) = Some filePath) imports
             then importers @ [file] else importers))"

definition findImporters ::
  "env \<Rightarrow> tracker \<Rightarrow> string \<Rightarrow> string list \<Rightarrow> (js_error + string list) \<times> tracker" where
  "findImporters E st filePath allFiles = findImportersLoop E st filePath allFiles []"

section \<open>The signature validator (signature-validator.ts)\<close>

record SignatureMatchResult =
  valid :: bool
  expectedSignature :: "string option"
  actualSignature :: string
  sm_error :: "string option"
  confidence :: nat

record validator =
  v_analyzerCache :: astCache
  signatureCache :: "string \<rightharpoonup> FunctionSignature list"

text \<open>\<open>show_nat\<close> is the decimal string a template literal gives a count.\<close>

function show_nat :: "nat \<Rightarrow> string" where
  "show_nat n =
     (if n < 10 then [''0123456789'' ! n] else show_nat (n div 10) @ [''0123456789'' ! (n mod 10)])"
  by pat_completeness auto
termination
  by (relation "measure id") auto

definition formatSignature :: "FunctionSignature \<Rightarrow> string" where
  "formatSignature signature =
     (let ps = js_join '', ''
                 (map (\<lambda>p. let name = (if par_optional p then par_name p @ ''?'' else par_name p)
                           in (case par_type p of
                                 Some ty \<Rightarrow> (if ty \<noteq> [] then name @ '': '' @ ty else name)
                               | None \<Rightarrow> name))
                      (parameters signature));
          sig0 = (if isAsync signature then ''async '' @ sig_name signature else sig_name signature);
          sig1 = sig0 @ ''('' @ ps @ '')''
      in (case sig_returnType signature of
            Some r \<Rightarrow> (if r \<noteq> [] then sig1 @ '': '' @ r else sig1)
          | None \<Rightarrow> sig1))"

text \<open>
  \<open>getSignatures\<close> answers from \<open>signatureCache\<close> when it can; otherwise it parses and
  extracts inside \<open>try { ... } catch (error) { return []; }\<close>, so every exception of
  \<open>parseFile\<close> and of \<open>extractFunctionSignatures\<close> becomes the empty list.
\<close>

definition getSignatures :: "env \<Rightarrow> validator \<Rightarrow> string \<Rightarrow> FunctionSignature list \<times> validator" where
  "getSignatures E st filePath =
     (case signatureCache st filePath of
        Some signatures \<Rightarrow> (signatures, st)
      | None \<Rightarrow>
          (case parseFile E (v_analyzerCache st) filePath of
             (Inl e, c) \<Rightarrow> ([], st\<lparr>v_analyzerCache := c\<rparr>)
           | (Inr ast, c) \<Rightarrow>
               (case extractFunctionSignatures ast filePath of
                  Inl e \<Rightarrow> ([], st\<lparr>v_analyzerCache := c\<rparr>)
                | Inr signatures \<Rightarrow>
                    (signatures,
                     st\<lparr>v_analyzerCache := c,
                        signatureCache := (signatureCache st)(filePath \<mapsto> signatures)\<rparr>))))"

definition actualSig :: "string \<Rightarrow> string list \<Rightarrow> string" where
  "actualSig functionName args = functionName @ ''('' @ js_join '', '' args @ '')''"

text \<open>
  \<open>checkArguments\<close> is the part of \<open>validateFunctionCall\<close> after the signature was
  found. The \<open>try\<close> of \<open>validateFunctionCall\<close> encloses only calls that raise
  nothing (\<open>getSignatures\<close> catches everything itself), so its \<open>catch\<close> branch is
  never taken and the function always returns a result.
\<close>

definition checkArguments :: "string \<Rightarrow> string list \<Rightarrow> FunctionSignature \<Rightarrow> SignatureMatchResult" where
  "checkArguments functionName args matchingSignature =
     (let expectedArgs = parameters matchingSignature;
          actualArgsCount = length args;
          expectedMinArgs = length (filter (\<lambda>p. \<not> par_optional p) expectedArgs);
          expectedMaxArgs = length expectedArgs
      in if actualArgsCount < expectedMinArgs then
           \<lparr>valid = False, expectedSignature = Some (formatSignature matchingSignature),
            actualSignature = actualSig functionName args,
            sm_error = Some (''Expected at least '' @ show_nat expectedMinArgs
                             @ '' arguments, got '' @ show_nat actualArgsCount),
            confidence = 1\<rparr>
         else if actualArgsCount > expectedMaxArgs then
           \<lparr>valid = False, expectedSignature = Some (formatSignature matchingSignature),
            actualSignature = actualSig functionName args,
            sm_error = Some (''Expected at most '' @ show_nat expectedMaxArgs
                             @ '' arguments, got '' @ show_nat actualArgsCount),
            confidence = 1\<rparr>
         else
           \<lparr>valid = True, expectedSignature = Some (formatSignature matchingSignature),
            actualSignature = actualSig functionName args, sm_error = None, confidence = 1\<rparr>)"

definition validateFunctionCall ::
  "env \<Rightarrow> validator \<Rightarrow> string \<Rightarrow> string list \<Rightarrow> string option \<Rightarrow> SignatureMatchResult \<times> validator" where
  "validateFunctionCall E st functionName args filePath =
     (case filePath of
        None \<Rightarrow>
          (\<lparr>valid = False, expectedSignature = None, actualSignature = actualSig functionName args,
            sm_error = Some ''No file path provided for signature lookup'', confidence = 0\<rparr>, st)
      | Some fp \<Rightarrow>
          (if fp = [] then
             (\<lparr>valid = False, expectedSignature = None,
               actualSignature = actualSig functionName args,
               sm_error = Some ''No file path provided for signature lookup'', confidence = 0\<rparr>, st)
           else
             (case getSignatures E st fp of
                (signatures, st') \<Rightarrow>
                  (case find (\<lambda>sig. sig_name sig = functionName) signatures of
                     None \<Rightarrow>
                       (\<lparr>valid = False, expectedSignature = None,
                         actualSignature = actualSig functionName args,
                         sm_error = Some (''Function '' @ [CHR 0x27] @ functionName @ [CHR 0x27]
                                          @ '' not found in '' @ fp),
                         confidence = 0\<rparr>, st')
                   | Some matchingSignature \<Rightarrow>
                       (checkArguments functionName args matchingSignature, st')))))"

section \<open>Inputs of the examples\<close>

text \<open>
  \<open>probeCandidates resolved\<close> lists, in order, each path that resolution probes
  together with the path it returns when the probe succeeds.
\<close>

definition probeCandidates :: "string \<Rightarrow> (string \<times> string) list" where
  "probeCandidates resolved =
     map (\<lambda>ext. (resolved @ ext, resolved @ ext)) extensions
     @ map (\<lambda>ext. (path_join [resolved, ''index'' @ ext], path_join [resolved, ''index'' @ ext]))
         extensions
     @ [(path_join [resolved, ''package.json''], resolved)]"

text \<open>A disk holding both \<open>/p/x\<close> and \<open>/p/x.ts\<close>, and an empty disk.\<close>

definition diskBoth :: "string \<Rightarrow> bool" where
  "diskBoth p = (p \<in> set [''/p/x'', ''/p/x.ts''])"

definition diskEmpty :: "string \<Rightarrow> bool" where
  "diskEmpty p = False"

text \<open>
  Trees of small source files, as the parser builds them (\<open>Other\<close> stands for the
  statement or block around a node), and an environment whose disk holds these files:
  \<open>/w/a.ts\<close> imports \<open>./b\<close>, \<open>/w/f.ts\<close> declares \<open>function f(a, b?) {}\<close>,
  \<open>/w/dyn.ts\<close> holds a dynamic import, \<open>/w/req.ts\<close> a \<open>require\<close> call, and
  \<open>/w/bad.ts\<close> does not parse. \<open>ast_export_add\<close> is the tree of
  \<open>export function add(a: number, b: number) {}\<close>. \<open>tracker0\<close> and \<open>validator0\<close>
  are freshly constructed objects, all caches empty.
\<close>

definition fn_add :: fn where
  "fn_add = \<lparr>params = [IdentifierParam ''a'' False (Some TSNumberKeyword),
                       IdentifierParam ''b'' False (Some TSNumberKeyword)],
            async = False, generator = False, returnType = None\<rparr>"

definition ast_export_add :: node where
  "ast_export_add =
     Program [ExportNamedDeclaration
                (Some (FunctionDeclaration (Some ''add'') fn_add (Some (1, 7)) [Other []]))
                [] (Some (1, 0))]"

definition fn_f :: fn where
  "fn_f = \<lparr>params = [IdentifierParam ''a'' False None, IdentifierParam ''b'' True None],
          async = False, generator = False, returnType = None\<rparr>"

definition ast_f :: node where
  "ast_f = Program [FunctionDeclaration (Some ''f'') fn_f (Some (1, 0)) [Other []]]"

definition ast_dynamic :: node where
  "ast_dynamic = Program [Other [CallExpression Import [StringLiteral ''m''] (Some (1, 0))]]"

definition ast_require :: node where
  "ast_require =
     Program [Other [CallExpression (Identifier ''require'') [StringLiteral ''m''] (Some (1, 0))]]"

definition ast_a :: node where
  "ast_a = Program [ImportDeclaration ''./b'' [ImportSpecifier ''b'' ''b''] False (Some (1, 0))]"

definition ast_b :: node where
  "ast_b =
     Program [ExportNamedDeclaration
                (Some (VariableDeclaration [VariableDeclarator (Some ''b'') (Some (1, 13)) [Other []]]))
                [] (Some (1, 0))]"

definition exampleFiles :: "(string \<times> string) list" where
  \<open>exampleFiles =
     [(''/w/a.ts'', ''import { b } from "./b";''),
      (''/w/b.ts'', ''export const b = 1;''),
      (''/w/f.ts'', ''function f(a, b?) {}''),
      (''/w/dyn.ts'', ''import("m");''),
      (''/w/req.ts'', ''require("m");''),
      (''/w/bad.ts'', ''function ('')]\<close>

definition exampleTrees :: "(string \<times> node) list" where
  \<open>exampleTrees =
     [(''import { b } from "./b";'', ast_a),
      (''export const b = 1;'', ast_b),
      (''function f(a, b?) {}'', ast_f),
      (''import("m");'', ast_dynamic),
      (''require("m");'', ast_require)]\<close>

definition exampleEnv :: env where
  "exampleEnv =
     \<lparr>fs_readFileSync = (\<lambda>p. case map_of exampleFiles p of
                                Some src \<Rightarrow> Inr src
                              | None \<Rightarrow> Inl (''ENOENT: no such file or directory, open '' @ p)),
      fs_existsSync = (\<lambda>p. p \<in> set (map fst exampleFiles)),
      parser_parse = (\<lambda>src. case map_of exampleTrees src of
                               Some ast \<Rightarrow> Inr ast
                             | None \<Rightarrow> Inl ''Unexpected token (1:9)''),
      process_cwd = ''/w''\<rparr>"

definition tracker0 :: tracker where
  "tracker0 = \<lparr>analyzerCache = Map.empty, exportsCache = Map.empty, importsCache = Map.empty\<rparr>"

definition validator0 :: validator where
  "validator0 = \<lparr>v_analyzerCache = Map.empty, signatureCache = Map.empty\<rparr>"

section \<open>Properties of module resolution\<close>

lemma find_append_first:
  "find P (xs @ ys) = (case find P xs of None \<Rightarrow> find P ys | Some x \<Rightarrow> Some x)"
  by (induction xs) auto

lemma find_pair_map:
  "find (\<lambda>(p, r). P p) (map (\<lambda>e. (g e, g e)) es) = map_option (\<lambda>p. (p, p)) (find P (map g es))"
  by (induction es) auto

lemma truthy_find: "[] \<notin> set xs \<Longrightarrow> truthy (find P xs) = (find P xs \<noteq> None)"
  by (induction xs) (auto simp: truthy_def)

lemma path_resolve_nonempty: "path_resolve cwd args \<noteq> []"
  by (simp add: path_resolve_def split: option.splits)

lemma path_normalize_nonempty: "path_normalize p \<noteq> []"
  by (auto simp: path_normalize_def Let_def)

lemma path_join_nonempty: "path_join args \<noteq> []"
  by (simp add: path_join_def Let_def path_normalize_nonempty)

lemma ext_candidates_nonempty: "r \<noteq> [] \<Longrightarrow> [] \<notin> set (map (\<lambda>ext. r @ ext) es)"
  by auto

lemma index_candidates_nonempty: "[] \<notin> set (map (\<lambda>ext. path_join [r, ''index'' @ ext]) es)"
  by (auto simp: path_join_nonempty[symmetric])

lemma relative_not_builtin:
  "startsWith i ''.'' \<or> startsWith i ''/'' \<Longrightarrow>
     i \<notin> set builtInModules \<and> \<not> startsWith i ''node:''"
  by (cases i) (auto simp: startsWith_def builtInModules_def)

text \<open>
  Claim C4, as stated, fails: with both the literal path \<open>/p/x\<close> and \<open>/p/x.ts\<close> on
  disk, resolving \<open>./x\<close> from \<open>/p/a.ts\<close> returns \<open>/p/x.ts\<close>, not the literal path.
\<close>

theorem resolve_literal_path_not_first:
  "diskBoth ''/p/x'' \<and> diskBoth ''/p/x.ts'' \<and>
   path_resolve ''/w'' [dirname ''/p/a.ts'', ''./x''] = ''/p/x'' \<and>
   resolvedPath (resolveImportPath diskBoth ''/w'' ''./x'' ''/p/a.ts'') = Some ''/p/x.ts'' \<and>
   resolvedPath (resolveImportPath diskBoth ''/w'' ''./x'' ''/p/a.ts'') \<noteq> Some ''/p/x''"
  by code_simp

text \<open>
  Claim C4, amended: for a specifier starting with \<open>.\<close> or \<open>/\<close>, resolution probes, in
  this order and with the first existing probe winning, (1) the resolved path suffixed
  with \<open>.ts\<close>, \<open>.tsx\<close>, \<open>.js\<close>, \<open>.jsx\<close>, \<open>.mts\<close>, \<open>.mjs\<close>, \<open>.cjs\<close>, (2) the literal
  resolved path (the empty suffix closes the extension list), (3) \<open>index\<close> plus each
  entry of the same list inside the resolved path, (4) \<open>package.json\<close> inside it, whose
  presence makes the resolved path itself the result. When no probe succeeds the result
  has \<open>exists = False\<close>, no path, no alternatives and the error message.
\<close>

theorem resolve_probe_order:
  assumes "startsWith importPath ''.'' \<or> startsWith importPath ''/''"
  shows "resolveImportPath ex cwd importPath fromFile =
    (case find (\<lambda>(probe, ret). ex probe)
            (probeCandidates (path_resolve cwd [dirname fromFile, importPath])) of
       Some (probe, ret) \<Rightarrow>
         \<lparr>resolvedPath = Some ret, exists = True, alternatives = None, error = None\<rparr>
     | None \<Rightarrow>
         \<lparr>resolvedPath = None, exists = False, alternatives = Some [],
          error = Some (''Import path '' @ [CHR 0x27] @ importPath @ [CHR 0x27]
                        @ '' could not be resolved from '' @ fromFile)\<rparr>)"
proof -
  define r where "r = path_resolve cwd [dirname fromFile, importPath]"
  define f1 where "f1 = find ex (map (\<lambda>ext. r @ ext) extensions)"
  define f2 where "f2 = find ex (map (\<lambda>ext. path_join [r, ''index'' @ ext]) extensions)"
  have r: "r \<noteq> []" by (simp add: r_def path_resolve_nonempty)
  have t1: "truthy f1 = (f1 \<noteq> None)"
    unfolding f1_def by (rule truthy_find[OF ext_candidates_nonempty[OF r]])
  have t2: "truthy f2 = (f2 \<noteq> None)"
    unfolding f2_def by (rule truthy_find[OF index_candidates_nonempty])
  have tr: "truthy (Some r)" using r by (simp add: truthy_def)
  have nb: "importPath \<notin> set builtInModules" "\<not> startsWith importPath ''node:''"
    using relative_not_builtin[OF assms] by simp_all
  have rel: "(\<not> startsWith importPath ''.'' \<and> \<not> startsWith importPath ''/'') = False"
    using assms by blast
  have cand: "find (\<lambda>(probe, ret). ex probe) (probeCandidates r) =
     (case f1 of Some p \<Rightarrow> Some (p, p) | None \<Rightarrow>
        (case f2 of Some p \<Rightarrow> Some (p, p) | None \<Rightarrow>
           (if ex (path_join [r, ''package.json''])
            then Some (path_join [r, ''package.json''], r) else None)))"
    unfolding probeCandidates_def f1_def f2_def
    by (simp add: find_append_first find_pair_map split: option.splits)
  show ?thesis
    unfolding resolveImportPath_def Let_def r_def[symmetric] cand
      f1_def[symmetric] f2_def[symmetric]
    using nb t1 t2 tr
    by (cases f1; cases f2) (simp_all add: rel findAlternativePaths_def truthy_def)
qed

theorem resolve_probe_order_witness:
  "startsWith ''./x'' ''.'' \<and>
   find (\<lambda>(probe, ret). diskBoth probe)
     (probeCandidates (path_resolve ''/w'' [dirname ''/p/a.ts'', ''./x''])) =
     Some (''/p/x.ts'', ''/p/x.ts'') \<and>
   resolveImportPath diskBoth ''/w'' ''./x'' ''/p/a.ts'' =
     \<lparr>resolvedPath = Some ''/p/x.ts'', exists = True, alternatives = None, error = None\<rparr>"
proof -
  have h: "startsWith ''./x'' ''.''" by code_simp
  have c: "find (\<lambda>(probe, ret). diskBoth probe)
     (probeCandidates (path_resolve ''/w'' [dirname ''/p/a.ts'', ''./x''])) =
     Some (''/p/x.ts'', ''/p/x.ts'')" by code_simp
  have "startsWith ''./x'' ''.'' \<or> startsWith ''./x'' ''/''" using h by simp
  from resolve_probe_order[OF this, of diskBoth "''/w''" "''/p/a.ts''"] h c
  show ?thesis by simp
qed

text \<open>
  Claim C6: a specifier that is no built-in and starts with neither \<open>.\<close> nor \<open>/\<close>
  resolves to itself with \<open>exists = True\<close>, whatever the importing file and whatever
  is on disk: the result does not mention \<open>existsSync\<close>. \<open>resolveImportPath\<close> is a
  total function with no error branch, so it raises nothing.
\<close>

theorem resolve_bare_specifier:
  assumes "importPath \<notin> set builtInModules" and "\<not> startsWith importPath ''node:''"
    and "\<not> startsWith importPath ''.''" and "\<not> startsWith importPath ''/''"
  shows "resolveImportPath existsSync cwd importPath fromFile =
     \<lparr>resolvedPath = Some importPath, exists = True, alternatives = None, error = None\<rparr>"
  using assms by (simp add: resolveImportPath_def)

theorem resolve_bare_specifier_witness:
  "''lodash'' \<notin> set builtInModules \<and> \<not> startsWith ''lodash'' ''node:'' \<and>
   \<not> startsWith ''lodash'' ''.'' \<and> \<not> startsWith ''lodash'' ''/'' \<and>
   resolveImportPath diskEmpty ''/w'' ''lodash'' ''/p/a.ts'' =
     \<lparr>resolvedPath = Some ''lodash'', exists = True, alternatives = None, error = None\<rparr>"
proof -
  have h1: "''lodash'' \<notin> set builtInModules" by code_simp
  have h2: "\<not> startsWith ''lodash'' ''node:''" by code_simp
  have h3: "\<not> startsWith ''lodash'' ''.''" by code_simp
  have h4: "\<not> startsWith ''lodash'' ''/''" by code_simp
  from resolve_bare_specifier[OF h1 h2 h3 h4, of diskEmpty "''/w''" "''/p/a.ts''"] h1 h2 h3 h4
  show ?thesis by simp
qed

text \<open>
  Claim C10: in every result of \<open>resolveImportPath\<close>, \<open>exists\<close> holds exactly when
  \<open>resolvedPath\<close> is not null, and a result that carries an \<open>error\<close> has
  \<open>exists = False\<close>.
\<close>

theorem resolve_result_invariant:
  "(exists (resolveImportPath ex cwd i f) \<longleftrightarrow> resolvedPath (resolveImportPath ex cwd i f) \<noteq> None)
   \<and> (error (resolveImportPath ex cwd i f) \<noteq> None \<longrightarrow> \<not> exists (resolveImportPath ex cwd i f))"
  by (auto simp: resolveImportPath_def Let_def truthy_def split: option.splits)

theorem resolve_result_invariant_witness:
  "error (resolveImportPath diskEmpty ''/w'' ''./missing'' ''/p/a.ts'') \<noteq> None \<and>
   \<not> exists (resolveImportPath diskEmpty ''/w'' ''./missing'' ''/p/a.ts'') \<and>
   resolvedPath (resolveImportPath diskEmpty ''/w'' ''./missing'' ''/p/a.ts'') = None"
proof -
  have h: "error (resolveImportPath diskEmpty ''/w'' ''./missing'' ''/p/a.ts'') \<noteq> None"
    by code_simp
  from resolve_result_invariant[of diskEmpty "''/w''" "''./missing''" "''/p/a.ts''"] h
  show ?thesis by auto
qed

section \<open>Properties of symbol extraction\<close>

text \<open>
  Claim C1 fails on the code. For the file \<open>export function add(a: number, b: number) {}\<close>
  \<open>extractSymbols\<close> yields no symbol at all: the handler of the function declaration
  reads \<open>this.generateFunctionSignature\<close> on an undefined receiver and the walk ends
  in a \<open>TypeError\<close>. With the analyzer as receiver the symbol would be produced with
  \<open>exported = False\<close>: the export handlers run in the same walk, and the export
  declaration is entered before the function declaration inside it.
\<close>

theorem extractSymbols_exported_function: "extractSymbols ast_export_add ''a.ts'' =
     Inl (TypeError ''Cannot read properties of undefined (reading 'generateFunctionSignature')'') \<and>
   extractSymbolsWith This_instance ast_export_add ''a.ts'' =
     Inr [\<lparr>sym_name = ''add'', sym_type = TFunction, sym_filePath = ''a.ts'',
           sym_line = Some 1, sym_column = Some 7,
           sym_signature = Some ''function add(a, b)'', exported = False\<rparr>]"
  by code_simp

text \<open>
  With the analyzer as receiver, promotion depends on the position of the export
  statement: \<open>export { f }\<close> before \<open>function f\<close> is missed, after it it is found.
\<close>

lemma promotion_depends_on_order:
  "extractSymbolsWith This_instance
     (Program [ExportNamedDeclaration None [ExportSpecifier ''f'' ''f'' None] None,
               FunctionDeclaration (Some ''f'') fn_f None []]) ''a.ts'' =
     Inr [\<lparr>sym_name = ''f'', sym_type = TFunction, sym_filePath = ''a.ts'',
           sym_line = None, sym_column = None,
           sym_signature = Some ''function f(a, b?)'', exported = False\<rparr>] \<and>
   extractSymbolsWith This_instance
     (Program [FunctionDeclaration (Some ''f'') fn_f None [],
               ExportNamedDeclaration None [ExportSpecifier ''f'' ''f'' None] None]) ''a.ts'' =
     Inr [\<lparr>sym_name = ''f'', sym_type = TFunction, sym_filePath = ''a.ts'',
           sym_line = None, sym_column = None,
           sym_signature = Some ''function f(a, b?)'', exported = True\<rparr>]"
  by code_simp

text \<open>
  Claim C2, as stated, fails: the signature rendered for \<open>add\<close> is not
  \<open>add(a: number, b: number)\<close>, and \<open>extractSymbols\<close> does not yield the symbol the
  claim describes, with either receiver.
\<close>

theorem extractSymbols_add_not_as_claimed: "generateFunctionSignature FunctionDeclarationKind (Some ''add'') fn_add \<noteq> ''add(a: number, b: number)'' \<and>
  extractSymbols ast_export_add ''a.ts'' \<noteq>
     Inr [\<lparr>sym_name = ''add'', sym_type = TFunction, sym_filePath = ''a.ts'',
           sym_line = Some 1, sym_column = Some 7,
           sym_signature = Some ''add(a: number, b: number)'', exported = True\<rparr>] \<and>
  extractSymbolsWith This_instance ast_export_add ''a.ts'' \<noteq>
     Inr [\<lparr>sym_name = ''add'', sym_type = TFunction, sym_filePath = ''a.ts'',
           sym_line = Some 1, sym_column = Some 7,
           sym_signature = Some ''add(a: number, b: number)'', exported = True\<rparr>]"
  by code_simp

text \<open>
  Claim C2, amended: \<open>generateFunctionSignature\<close> renders a function declaration as the
  marker \<open>function\<close> (\<open>function*\<close> for a generator), then \<open>async\<close> when the function
  is async, the name, the parameters in parentheses separated by a comma and a space,
  and \<open>: ReturnType\<close> when a return type annotation is present. An identifier parameter
  is rendered as its name, followed by \<open>?\<close> when optional; its type annotation is not
  rendered. Any other parameter is rendered as \<open>(...)\<close>. For
  \<open>function add(a: number, b: number) {}\<close> the string is \<open>function add(a, b)\<close>.
\<close>

theorem generateFunctionSignature_rendering: "generateFunctionSignature FunctionDeclarationKind (Some name) f =
     (if generator f then ''function* '' else ''function '')
     @ (if async f then ''async '' else [])
     @ name @ ''('' @ js_join '', '' (map paramString (params f)) @ '')''
     @ (case returnType f of
          None \<Rightarrow> []
        | Some t \<Rightarrow> (if tsTypeToString t = [] then [] else '': '' @ tsTypeToString t))
   \<and> paramString (IdentifierParam x opt ty) = (if opt then x @ ''?'' else x)
   \<and> paramString OtherPattern = ''(...)''
   \<and> generateFunctionSignature FunctionDeclarationKind (Some ''add'') fn_add = ''function add(a, b)''"
  by (simp add: generateFunctionSignature_def paramString_def extractReturnType_def Let_def fn_add_def
      split: option.splits)

section \<open>Properties of import extraction and the dependency graph\<close>

text \<open>
  Claim C3 fails on the code. \<open>extractImports\<close> on a file holding \<open>import("m")\<close>, and
  on one holding \<open>require("m")\<close>, returns no record: the call of the missing member
  \<open>traverse\<close> raises, and the error is re-raised as an \<open>AnalysisError\<close>. Even walked
  by the traversal library, the visitor object yields no record for a dynamic import:
  its handler is replaced by the \<open>require\<close> handler written under the same key (and the
  callee of \<open>import(...)\<close> is an \<open>Import\<close> node, not an identifier).
\<close>

theorem extractImports_dynamic_import: "fst (extractImports exampleEnv tracker0 ''/w/dyn.ts'') =
     Inl (AnalysisError ''Failed to extract imports: this.analyzer.traverse is not a function''
            (Some ''/w/dyn.ts'')) \<and>
   fst (extractImports exampleEnv tracker0 ''/w/req.ts'') =
     Inl (AnalysisError ''Failed to extract imports: this.analyzer.traverse is not a function''
            (Some ''/w/req.ts'')) \<and>
   babel_traverse importVisitors ast_dynamic [] = Inr [] \<and>
   babel_traverse importVisitors
     (Program [Other [CallExpression (Identifier ''import'') [StringLiteral ''m''] (Some (1, 0))]]) []
     = Inr []"
  by code_simp

text \<open>
  Walked by the traversal library, the same visitor object does record a \<open>require\<close>
  call and a static import.
\<close>

lemma importVisitors_require_and_static:
  "babel_traverse importVisitors ast_require [] =
     Inr [\<lparr>imp_path = ''m'', imp_source = ''m'', specifiers = [''require''],
           isTypeOnly = False, imp_line = Some 1\<rparr>] \<and>
   babel_traverse importVisitors ast_a [] =
     Inr [\<lparr>imp_path = ''./b'', imp_source = ''./b'', specifiers = [''b''],
           isTypeOnly = False, imp_line = Some 1\<rparr>]"
  by code_simp

text \<open>
  What one import adds to a dependency set: nothing for a specifier that starts with
  neither \<open>.\<close> nor \<open>/\<close>, nothing for one that does not resolve.
\<close>

lemma addDependency_skips:
  "(\<not> startsWith (imp_path imp) ''.'' \<and> \<not> startsWith (imp_path imp) ''/''
      \<longrightarrow> addDependency E filePath imp deps = deps)
   \<and> (\<not> exists (resolveImportPath (fs_existsSync E) (process_cwd E) (imp_path imp) filePath)
      \<longrightarrow> addDependency E filePath imp deps = deps)"
  by (auto simp: addDependency_def Let_def split: option.splits)

lemma buildGraphLoop_first_fails:
  "fst (extractImports E st f) = Inl e \<Longrightarrow> fst (buildGraphLoop E st (f # rest) g) = Inl e"
  by (cases "extractImports E st f") simp

lemma findImportersLoop_first_fails:
  "fst (extractImports E st f) = Inl e \<Longrightarrow> fst (findImportersLoop E st target (f # rest) acc) = Inl e"
  by (cases "extractImports E st f") simp

text \<open>No call of \<open>extractImports\<close> on a file without a cached entry returns a list.\<close>

lemma extractImports_uncached_fails:
  "importsCache st f = None \<Longrightarrow> \<exists>e. fst (extractImports E st f) = Inl e"
  by (cases "parseFile E (analyzerCache st) f")
     (auto simp: extractImports_def extractImports_try_def callTraverse_def analyzer_traverse_def
        split: sum.splits)

text \<open>
  Claim C8 fails on the code. For the two files \<open>/w/a.ts\<close> (which imports \<open>./b\<close>)
  and \<open>/w/b.ts\<close>, \<open>buildDependencyGraph\<close> returns no graph and \<open>findImporters\<close> no
  list: both raise the \<open>AnalysisError\<close> of \<open>extractImports\<close> on the first file.
\<close>

theorem buildDependencyGraph_two_files: "fst (buildDependencyGraph exampleEnv tracker0 [''/w/a.ts'', ''/w/b.ts'']) =
     Inl (AnalysisError ''Failed to extract imports: this.analyzer.traverse is not a function''
            (Some ''/w/a.ts'')) \<and>
   fst (findImporters exampleEnv tracker0 ''/w/b.ts'' [''/w/a.ts'', ''/w/b.ts'']) =
     Inl (AnalysisError ''Failed to extract imports: this.analyzer.traverse is not a function''
            (Some ''/w/a.ts''))"
proof -
  have "fst (extractImports exampleEnv tracker0 ''/w/a.ts'') =
     Inl (AnalysisError ''Failed to extract imports: this.analyzer.traverse is not a function''
            (Some ''/w/a.ts''))"
    by code_simp
  then show ?thesis
    unfolding buildDependencyGraph_def findImporters_def
    by (simp only: buildGraphLoop_first_fails findImportersLoop_first_fails)
qed

lemma parseFile_error:
  "fst (parseFile E c f) = Inl e \<Longrightarrow> \<exists>m. e = AnalysisError m (Some f)"
  by (auto simp: parseFile_def parse_def rethrowAsAnalysisError_def
      split: sum.splits option.splits prod.splits if_splits)

lemma rethrow_carries_path:
  "(\<exists>m. e = AnalysisError m (Some f)) \<or> \<not> isAnalysisError e \<Longrightarrow>
     \<exists>m. rethrowAsAnalysisError p f e = AnalysisError m (Some f)"
  by (auto simp: rethrowAsAnalysisError_def)

lemma extractImports_try_error:
  "fst (extractImports_try E st f) = Inl e \<Longrightarrow>
     (\<exists>m. e = AnalysisError m (Some f)) \<or> \<not> isAnalysisError e"
  using parseFile_error[of E "analyzerCache st" f]
  by (cases "parseFile E (analyzerCache st) f")
     (auto simp: extractImports_try_def callTraverse_def analyzer_traverse_def split: sum.splits)

lemma extractExports_try_error:
  "fst (extractExports_try E st f) = Inl e \<Longrightarrow>
     (\<exists>m. e = AnalysisError m (Some f)) \<or> \<not> isAnalysisError e"
  using parseFile_error[of E "analyzerCache st" f]
  by (cases "parseFile E (analyzerCache st) f")
     (auto simp: extractExports_try_def callTraverse_def analyzer_traverse_def split: sum.splits)

lemma extractImports_error:
  "fst (extractImports E st f) = Inl e \<Longrightarrow> \<exists>m. e = AnalysisError m (Some f)"
  using rethrow_carries_path[OF extractImports_try_error, of E st f]
  by (cases "extractImports_try E st f")
     (auto simp: extractImports_def split: option.splits sum.splits)

lemma extractExports_error:
  "fst (extractExports E st f) = Inl e \<Longrightarrow> \<exists>m. e = AnalysisError m (Some f)"
  using rethrow_carries_path[OF extractExports_try_error, of E st f]
  by (cases "extractExports_try E st f")
     (auto simp: extractExports_def split: option.splits sum.splits)

text \<open>
  Claim C9: whenever \<open>extractImports\<close> or \<open>extractExports\<close> fails, the error raised
  is an \<open>AnalysisError\<close> carrying the path of the file; and an error of the \<open>try\<close>
  block that is already an \<open>AnalysisError\<close> is the very error raised.
\<close>

theorem extract_failure_is_AnalysisError:
  "(fst (extractImports E st f) = Inl e \<longrightarrow> (\<exists>m. e = AnalysisError m (Some f)))
   \<and> (fst (extractExports E st f) = Inl e \<longrightarrow> (\<exists>m. e = AnalysisError m (Some f)))
   \<and> (importsCache st f = None \<and> fst (extractImports_try E st f) = Inl e \<and> isAnalysisError e
        \<longrightarrow> fst (extractImports E st f) = Inl e)
   \<and> (exportsCache st f = None \<and> fst (extractExports_try E st f) = Inl e \<and> isAnalysisError e
        \<longrightarrow> fst (extractExports E st f) = Inl e)"
proof (intro conjI impI)
  assume "fst (extractImports E st f) = Inl e"
  then show "\<exists>m. e = AnalysisError m (Some f)" by (rule extractImports_error)
next
  assume "fst (extractExports E st f) = Inl e"
  then show "\<exists>m. e = AnalysisError m (Some f)" by (rule extractExports_error)
next
  assume "importsCache st f = None \<and> fst (extractImports_try E st f) = Inl e \<and> isAnalysisError e"
  then show "fst (extractImports E st f) = Inl e"
    by (cases "extractImports_try E st f")
       (simp add: extractImports_def rethrowAsAnalysisError_def)
next
  assume "exportsCache st f = None \<and> fst (extractExports_try E st f) = Inl e \<and> isAnalysisError e"
  then show "fst (extractExports E st f) = Inl e"
    by (cases "extractExports_try E st f")
       (simp add: extractExports_def rethrowAsAnalysisError_def)
qed

theorem extract_failure_is_AnalysisError_witness:
  "fst (extractImports exampleEnv tracker0 ''/w/bad.ts'') =
     Inl (AnalysisError ''Failed to parse file: Unexpected token (1:9)'' (Some ''/w/bad.ts'')) \<and>
   fst (extractExports exampleEnv tracker0 ''/w/bad.ts'') =
     Inl (AnalysisError ''Failed to parse file: Unexpected token (1:9)'' (Some ''/w/bad.ts'')) \<and>
   importsCache tracker0 ''/w/bad.ts'' = None \<and> exportsCache tracker0 ''/w/bad.ts'' = None \<and>
   fst (extractImports_try exampleEnv tracker0 ''/w/bad.ts'') =
     Inl (AnalysisError ''Failed to parse file: Unexpected token (1:9)'' (Some ''/w/bad.ts'')) \<and>
   fst (extractExports_try exampleEnv tracker0 ''/w/bad.ts'') =
     Inl (AnalysisError ''Failed to parse file: Unexpected token (1:9)'' (Some ''/w/bad.ts'')) \<and>
   isAnalysisError
     (AnalysisError ''Failed to parse file: Unexpected token (1:9)'' (Some ''/w/bad.ts''))"
proof -
  have c: "importsCache tracker0 ''/w/bad.ts'' = None" "exportsCache tracker0 ''/w/bad.ts'' = None"
    by (simp_all add: tracker0_def)
  have t1: "fst (extractImports_try exampleEnv tracker0 ''/w/bad.ts'') =
     Inl (AnalysisError ''Failed to parse file: Unexpected token (1:9)'' (Some ''/w/bad.ts''))"
    by code_simp
  have t2: "fst (extractExports_try exampleEnv tracker0 ''/w/bad.ts'') =
     Inl (AnalysisError ''Failed to parse file: Unexpected token (1:9)'' (Some ''/w/bad.ts''))"
    by code_simp
  from extract_failure_is_AnalysisError[of exampleEnv tracker0 "''/w/bad.ts''"
      "AnalysisError ''Failed to parse file: Unexpected token (1:9)'' (Some ''/w/bad.ts'')"]
    c t1 t2
  show ?thesis by simp
qed

section \<open>Properties of the signature validator\<close>

text \<open>
  Claim C5, as stated, fails: on \<open>/w/bad.ts\<close>, whose source does not parse,
  \<open>parseFile\<close> raises the parse error and \<open>validateFunctionCall\<close> returns the
  "function not found" result with confidence 0.
\<close>

theorem validateFunctionCall_swallows_parse_error: "fst (parseFile exampleEnv (v_analyzerCache validator0) ''/w/bad.ts'') =
     Inl (AnalysisError ''Failed to parse file: Unexpected token (1:9)'' (Some ''/w/bad.ts'')) \<and>
   fst (validateFunctionCall exampleEnv validator0 ''f'' [''x''] (Some ''/w/bad.ts'')) =
     \<lparr>valid = False, expectedSignature = None, actualSignature = ''f(x)'',
      sm_error = Some ''Function 'f' not found in /w/bad.ts'', confidence = 0\<rparr>"
  by code_simp

text \<open>
  Claim C5, amended: \<open>validateFunctionCall\<close> raises nothing. For a non-empty file path
  with no cached signatures, when parsing the file fails (unreadable or malformed
  source), \<open>getSignatures\<close> turns the error into the empty list and the call returns
  \<open>valid = False\<close>, confidence 0 and the error \<open>Function 'name' not found in file\<close>.
\<close>

theorem validateFunctionCall_parse_failure:
  assumes "fp \<noteq> []" and "signatureCache st fp = None"
    and "fst (parseFile E (v_analyzerCache st) fp) = Inl e"
  shows "fst (validateFunctionCall E st name args (Some fp)) =
     \<lparr>valid = False, expectedSignature = None, actualSignature = actualSig name args,
      sm_error = Some (''Function '' @ [CHR 0x27] @ name @ [CHR 0x27] @ '' not found in '' @ fp),
      confidence = 0\<rparr>"
  using assms
  by (cases "parseFile E (v_analyzerCache st) fp")
     (simp add: validateFunctionCall_def getSignatures_def)

theorem validateFunctionCall_parse_failure_witness:
  "''/w/bad.ts'' \<noteq> [] \<and> signatureCache validator0 ''/w/bad.ts'' = None \<and>
   fst (parseFile exampleEnv (v_analyzerCache validator0) ''/w/bad.ts'') =
     Inl (AnalysisError ''Failed to parse file: Unexpected token (1:9)'' (Some ''/w/bad.ts'')) \<and>
   fst (validateFunctionCall exampleEnv validator0 ''g'' [''1'', ''2''] (Some ''/w/bad.ts'')) =
     \<lparr>valid = False, expectedSignature = None, actualSignature = ''g(1, 2)'',
      sm_error = Some ''Function 'g' not found in /w/bad.ts'', confidence = 0\<rparr>"
proof -
  have h1: "''/w/bad.ts'' \<noteq> []" by simp
  have h2: "signatureCache validator0 ''/w/bad.ts'' = None" by (simp add: validator0_def)
  have h3: "fst (parseFile exampleEnv (v_analyzerCache validator0) ''/w/bad.ts'') =
     Inl (AnalysisError ''Failed to parse file: Unexpected token (1:9)'' (Some ''/w/bad.ts''))"
    by code_simp
  have a: "actualSig ''g'' [''1'', ''2''] = ''g(1, 2)''" by code_simp
  from validateFunctionCall_parse_failure[OF h1 h2 h3, of "''g''" "[''1'', ''2'']"] h1 h2 h3 a
  show ?thesis by simp
qed

text \<open>
  Claim C7 fails on the code. For \<open>/w/f.ts\<close>, which declares \<open>function f(a, b?) {}\<close>,
  \<open>extractFunctionSignatures\<close> ends in a \<open>TypeError\<close> (its handler reads
  \<open>this.extractTypeAnnotation\<close> on an undefined receiver), \<open>getSignatures\<close> turns it
  into the empty list, and \<open>validateFunctionCall\<close> answers "not found" with confidence
  0 for one argument and for three.
\<close>

theorem validateFunctionCall_optional_parameter: "extractFunctionSignatures ast_f ''/w/f.ts'' =
     Inl (TypeError ''Cannot read properties of undefined (reading 'extractTypeAnnotation')'') \<and>
   fst (validateFunctionCall exampleEnv validator0 ''f'' [''x''] (Some ''/w/f.ts'')) =
     \<lparr>valid = False, expectedSignature = None, actualSignature = ''f(x)'',
      sm_error = Some ''Function 'f' not found in /w/f.ts'', confidence = 0\<rparr> \<and>
   fst (validateFunctionCall exampleEnv validator0 ''f'' [''x'', ''y'', ''z''] (Some ''/w/f.ts'')) =
     \<lparr>valid = False, expectedSignature = None, actualSignature = ''f(x, y, z)'',
      sm_error = Some ''Function 'f' not found in /w/f.ts'', confidence = 0\<rparr>"
  by code_simp

text \<open>
  The argument check itself, on the signature the handlers were written to extract:
  too few arguments, too many, and in between.
\<close>

lemma checkArguments_cases:
  "(length args < length (filter (\<lambda>p. \<not> par_optional p) (parameters sig)) \<longrightarrow>
      \<not> valid (checkArguments name args sig) \<and> confidence (checkArguments name args sig) = 1 \<and>
      sm_error (checkArguments name args sig) =
        Some (''Expected at least ''
              @ show_nat (length (filter (\<lambda>p. \<not> par_optional p) (parameters sig)))
              @ '' arguments, got '' @ show_nat (length args)))
   \<and> (length (parameters sig) < length args \<longrightarrow>
      \<not> valid (checkArguments name args sig) \<and> confidence (checkArguments name args sig) = 1 \<and>
      sm_error (checkArguments name args sig) =
        Some (''Expected at most '' @ show_nat (length (parameters sig))
              @ '' arguments, got '' @ show_nat (length args)))
   \<and> (length (filter (\<lambda>p. \<not> par_optional p) (parameters sig)) \<le> length args \<and>
      length args \<le> length (parameters sig) \<longrightarrow>
      valid (checkArguments name args sig) \<and> confidence (checkArguments name args sig) = 1)"
proof -
  have le: "length (filter (\<lambda>p. \<not> par_optional p) (parameters sig)) \<le> length (parameters sig)"
    by (rule length_filter_le)
  have "\<not> (length args < length (filter (\<lambda>p. \<not> par_optional p) (parameters sig))
           \<and> length (parameters sig) < length args)"
    using le by linarith
  then show ?thesis
    by (auto simp: checkArguments_def Let_def)
qed

lemma checkArguments_optional_parameter:
  "extractFunctionSignaturesWith This_instance ast_f ''/w/f.ts'' =
     Inr [\<lparr>sig_name = ''f'',
           parameters = [\<lparr>par_name = ''a'', par_type = None, par_optional = False\<rparr>,
                         \<lparr>par_name = ''b'', par_type = None, par_optional = True\<rparr>],
           sig_returnType = None, sig_filePath = ''/w/f.ts'', sig_line = Some 1,
           isAsync = False, isGenerator = False\<rparr>] \<and>
   map_sum id (map (checkArguments ''f'' [''x'']))
     (extractFunctionSignaturesWith This_instance ast_f ''/w/f.ts'') =
     Inr [\<lparr>valid = True, expectedSignature = Some ''f(a, b?)'', actualSignature = ''f(x)'',
           sm_error = None, confidence = 1\<rparr>] \<and>
   map_sum id (map (checkArguments ''f'' [''x'', ''y'', ''z'']))
     (extractFunctionSignaturesWith This_instance ast_f ''/w/f.ts'') =
     Inr [\<lparr>valid = False, expectedSignature = Some ''f(a, b?)'',
           actualSignature = ''f(x, y, z)'',
           sm_error = Some ''Expected at most 2 arguments, got 3'', confidence = 1\<rparr>]"
  by code_simp

end
